theory Spec2Isabelle
  imports Main
begin

section \<open>The JavaScript fragment used by the locale module\<close>

text \<open>
  The locale module (\<^verbatim>\<open>languages\<close>, \<^verbatim>\<open>defaultLang\<close>, \<^verbatim>\<open>ui\<close>,
  \<^verbatim>\<open>getLangFromUrl\<close>, \<^verbatim>\<open>useTranslations\<close>) is TypeScript that runs as JavaScript.
  Three language features decide what it computes and are modelled here:
  property lookup on an object literal (which consults \<^verbatim>\<open>Object.prototype\<close>),
  the \<^verbatim>\<open>||\<close> operator (which tests truthiness, not presence), and
  \<^verbatim>\<open>String.prototype.split\<close>.

  Strings are \<^typ>\<open>string\<close>; a non-ASCII literal of the source is written as the
  bytes of its UTF-8 encoding. No function of the module measures or cuts a translated
  string, so only equality and emptiness of these values matter.
\<close>

text \<open>
  The values a property read of this module can produce: \<^verbatim>\<open>undefined\<close>, a string,
  or a member inherited from \<^verbatim>\<open>Object.prototype\<close> (named by its property key).
\<close>

datatype jsval = Undefined | Str string | Builtin string

datatype js_error = TypeError

text \<open>An object literal with string keys: its own properties.\<close>

type_synonym 'v object = "string \<rightharpoonup> 'v"

text \<open>
  The property names every object literal inherits from \<^verbatim>\<open>Object.prototype\<close>
  (ECMAScript, properties of the Object prototype object).
\<close>

definition object_prototype_keys :: "string list" where
  "object_prototype_keys =
     [''constructor'', ''hasOwnProperty'', ''isPrototypeOf'', ''propertyIsEnumerable'',
      ''toLocaleString'', ''toString'', ''valueOf'', ''__proto__'',
      ''__defineGetter__'', ''__defineSetter__'', ''__lookupGetter__'', ''__lookupSetter__'']"

text \<open>\<^verbatim>\<open>key in obj\<close>: an own property, or one found on the prototype chain.\<close>

definition has_property :: "'v object \<Rightarrow> string \<Rightarrow> bool" where
  "has_property obj key = (obj key \<noteq> None \<or> key \<in> set object_prototype_keys)"

text \<open>\<^verbatim>\<open>obj[key]\<close> on an object literal whose own values are strings.\<close>

definition get_property :: "string object \<Rightarrow> string \<Rightarrow> jsval" where
  "get_property obj key =
     (case obj key of
        Some s \<Rightarrow> Str s
      | None \<Rightarrow> if key \<in> set object_prototype_keys then Builtin key else Undefined)"

text \<open>ToBoolean: \<^verbatim>\<open>undefined\<close> and the empty string are falsy, objects and functions truthy.\<close>

fun truthy :: "jsval \<Rightarrow> bool" where
  "truthy Undefined = False"
| "truthy (Str s) = (s \<noteq> [])"
| "truthy (Builtin k) = True"

text \<open>
  \<^verbatim>\<open>s.split(sep)\<close> for a one-character separator: the pieces between the separators,
  empty pieces included; the empty string gives one empty piece.
\<close>

fun js_split :: "char \<Rightarrow> string \<Rightarrow> string list" where
  "js_split sep [] = [[]]"
| "js_split sep (c # cs) =
     (if c = sep then [] # js_split sep cs
      else (case js_split sep cs of
              [] \<Rightarrow> [[c]]
            | piece # pieces \<Rightarrow> (c # piece) # pieces))"

section \<open>The locale tables\<close>

text \<open>\<^verbatim>\<open>export const languages = { zh: ..., en: 'English' }\<close>\<close>

definition languages :: "string object" where
  "languages = map_of
     [(''zh'', [CHR 0xE4, CHR 0xB8, CHR 0xAD, CHR 0xE6, CHR 0x96, CHR 0x87]),
      (''en'', ''English'')]"

text \<open>\<^verbatim>\<open>export const defaultLang = 'zh'\<close>\<close>

definition defaultLang :: string where
  "defaultLang = ''zh''"

text \<open>The two inner objects of \<^verbatim>\<open>ui\<close>, entry by entry in the source's order.\<close>

definition ui_zh :: "(string \<times> string) list" where
  "ui_zh = [
   (''nav.home'', [CHR 0xE9, CHR 0xA6, CHR 0x96, CHR 0xE9, CHR 0xA1, CHR 0xB5]),
   (''nav.about'', [CHR 0xE5, CHR 0x85, CHR 0xB3, CHR 0xE4, CHR 0xBA, CHR 0x8E, CHR 0xE9, CHR 0xA1, CHR 0xB9, CHR 0xE7, CHR 0x9B, CHR 0xAE]),
   (''nav.team'', [CHR 0xE7, CHR 0xA0, CHR 0x94, CHR 0xE7, CHR 0xA9, CHR 0xB6, CHR 0xE5, CHR 0x9B, CHR 0xA2, CHR 0xE9, CHR 0x98, CHR 0x9F]),
   (''nav.news'', [CHR 0xE6, CHR 0x96, CHR 0xB0, CHR 0xE9, CHR 0x97, CHR 0xBB, CHR 0xE5, CHR 0x8A, CHR 0xA8, CHR 0xE6, CHR 0x80, CHR 0x81]),
   (''nav.contact'', [CHR 0xE8, CHR 0x81, CHR 0x94, CHR 0xE7, CHR 0xB3, CHR 0xBB, CHR 0xE6, CHR 0x88, CHR 0x91, CHR 0xE4, CHR 0xBB, CHR 0xAC]),
   (''footer.copyright'', [CHR 0xE7, CHR 0x89, CHR 0x88, CHR 0xE6, CHR 0x9D, CHR 0x83, CHR 0xE6, CHR 0x89, CHR 0x80, CHR 0xE6, CHR 0x9C, CHR 0x89]),
   (''footer.all_rights_reserved'', [CHR 0xE4, CHR 0xBF, CHR 0x9D, CHR 0xE7, CHR 0x95, CHR 0x99, CHR 0xE6, CHR 0x89, CHR 0x80, CHR 0xE6, CHR 0x9C, CHR 0x89, CHR 0xE6, CHR 0x9D, CHR 0x83, CHR 0xE5, CHR 0x88, CHR 0xA9]),
   (''home.hero.title'', ''UOS''),
   (''home.hero.subtitle'', [CHR 0xE9, CHR 0x9D, CHR 0xA2, CHR 0xE5, CHR 0x90, CHR 0x91, CHR 0xE7, CHR 0x94, CHR 0xB5, CHR 0xE5, CHR 0x8A, CHR 0x9B, CHR 0xE4, CHR 0xBF, CHR 0xA1, CHR 0xE6, CHR 0x81, CHR 0xAF, CHR 0xE5, CHR 0x9C, CHR 0xBA, CHR 0xE6, CHR 0x99, CHR 0xAF, CHR 0xE7, CHR 0x9A, CHR 0x84, CHR 0xE4, CHR 0xBA, CHR 0xBA, CHR 0xE6, CHR 0x9C, CHR 0xBA, CHR 0xE7, CHR 0x89, CHR 0xA9, CHR 0xE8, CHR 0x9E, CHR 0x8D, CHR 0xE5, CHR 0x90, CHR 0x88, CHR 0xE6, CHR 0x93, CHR 0x8D, CHR 0xE4, CHR 0xBD, CHR 0x9C, CHR 0xE7, CHR 0xB3, CHR 0xBB, CHR 0xE7, CHR 0xBB, CHR 0x9F]),
   (''home.hero.description'', [CHR 0xE5, CHR 0xB7, CHR 0xA5, CHR 0xE4, CHR 0xB8, CHR 0x9A, CHR 0xE4, CHR 0xBA, CHR 0x92, CHR 0xE8, CHR 0x81, CHR 0x94, CHR 0xE7, CHR 0xBD, CHR 0x91, CHR 0xE8, CHR 0xBD, CHR 0xAF, CHR 0xE4, CHR 0xBB, CHR 0xB6, CHR 0xE5, CHR 0xB9, CHR 0xB3, CHR 0xE5, CHR 0x8F, CHR 0xB0, CHR 0xE5, CHR 0x8F, CHR 0x91, CHR 0xE5, CHR 0xB1, CHR 0x95, CHR 0xE7, CHR 0x9A, CHR 0x84, CHR 0xE6, CHR 0x96, CHR 0xB0, CHR 0xE9, CHR 0x98, CHR 0xB6, CHR 0xE6, CHR 0xAE, CHR 0xB5]),
   (''home.features.title'', [CHR 0xE6, CHR 0xA0, CHR 0xB8, CHR 0xE5, CHR 0xBF, CHR 0x83, CHR 0xE7, CHR 0x89, CHR 0xB9, CHR 0xE7, CHR 0x82, CHR 0xB9]),
   (''home.features.ubiquitous.title'', [CHR 0xE6, CHR 0xB3, CHR 0x9B, CHR 0xE5, CHR 0x9C, CHR 0xA8, CHR 0xE4, CHR 0xBA, CHR 0x92, CHR 0xE8, CHR 0x81, CHR 0x94]),
   (''home.features.ubiquitous.desc'', [CHR 0xE6, CHR 0x94, CHR 0xAF, CHR 0xE6, CHR 0x8C, CHR 0x81, CHR 0xE5, CHR 0x85, CHR 0xA8, CHR 0xE7, CHR 0x94, CHR 0x9F, CHR 0xE4, CHR 0xBA, CHR 0xA7, CHR 0xE8, CHR 0xA6, CHR 0x81, CHR 0xE7, CHR 0xB4, CHR 0xA0, CHR 0xE7, CHR 0x9A, CHR 0x84, CHR 0xE6, CHR 0x9C, CHR 0x89, CHR 0xE5, CHR 0xBA, CHR 0x8F, CHR 0xE4, CHR 0xBA, CHR 0x92, CHR 0xE5, CHR 0x8A, CHR 0xA8]),
   (''home.features.software.title'', [CHR 0xE8, CHR 0xBD, CHR 0xAF, CHR 0xE4, CHR 0xBB, CHR 0xB6, CHR 0xE5, CHR 0xAE, CHR 0x9A, CHR 0xE4, CHR 0xB9, CHR 0x89]),
   (''home.features.software.desc'', [CHR 0xE4, CHR 0xBB, CHR 0xA5, CHR 0xE8, CHR 0xBD, CHR 0xAF, CHR 0xE4, CHR 0xBB, CHR 0xB6, CHR 0xE9, CHR 0xA9, CHR 0xBE, CHR 0xE9, CHR 0xA9, CHR 0xAD, CHR 0xE7, CHR 0xB3, CHR 0xBB, CHR 0xE7, CHR 0xBB, CHR 0x9F, CHR 0xE5, CHR 0xA4, CHR 0x8D, CHR 0xE6, CHR 0x9D, CHR 0x82, CHR 0xE6, CHR 0x80, CHR 0xA7]),
   (''home.features.intelligent.title'', [CHR 0xE6, CHR 0x99, CHR 0xBA, CHR 0xE8, CHR 0x83, CHR 0xBD, CHR 0xE9, CHR 0xA9, CHR 0xB1, CHR 0xE5, CHR 0x8A, CHR 0xA8]),
   (''home.features.intelligent.desc'', [CHR 0xE5, CHR 0xAE, CHR 0x9E, CHR 0xE7, CHR 0x8E, CHR 0xB0, CHR 0xE6, CHR 0x99, CHR 0xBA, CHR 0xE8, CHR 0x83, CHR 0xBD, CHR 0xE5, CHR 0x8C, CHR 0x96, CHR 0xE7, CHR 0xAE, CHR 0xA1, CHR 0xE6, CHR 0x8E, CHR 0xA7, CHR 0xE7, CHR 0x9A, CHR 0x84, CHR 0xE8, CHR 0xB5, CHR 0x84, CHR 0xE6, CHR 0xBA, CHR 0x90, CHR 0xE7, CHR 0xAE, CHR 0xA1, CHR 0xE7, CHR 0x90, CHR 0x86]),
   (''about.title'', [CHR 0xE5, CHR 0x85, CHR 0xB3, CHR 0xE4, CHR 0xBA, CHR 0x8E, CHR 0xE9, CHR 0xA1, CHR 0xB9, CHR 0xE7, CHR 0x9B, CHR 0xAE]),
   (''team.title'', [CHR 0xE7, CHR 0xA0, CHR 0x94, CHR 0xE7, CHR 0xA9, CHR 0xB6, CHR 0xE5, CHR 0x9B, CHR 0xA2, CHR 0xE9, CHR 0x98, CHR 0x9F]),
   (''news.title'', [CHR 0xE6, CHR 0x96, CHR 0xB0, CHR 0xE9, CHR 0x97, CHR 0xBB, CHR 0xE5, CHR 0x8A, CHR 0xA8, CHR 0xE6, CHR 0x80, CHR 0x81]),
   (''news.read_more'', [CHR 0xE9, CHR 0x98, CHR 0x85, CHR 0xE8, CHR 0xAF, CHR 0xBB, CHR 0xE6, CHR 0x9B, CHR 0xB4, CHR 0xE5, CHR 0xA4, CHR 0x9A]),
   (''news.back'', [CHR 0xE8, CHR 0xBF, CHR 0x94, CHR 0xE5, CHR 0x9B, CHR 0x9E, CHR 0xE6, CHR 0x96, CHR 0xB0, CHR 0xE9, CHR 0x97, CHR 0xBB, CHR 0xE5, CHR 0x88, CHR 0x97, CHR 0xE8, CHR 0xA1, CHR 0xA8]),
   (''contact.title'', [CHR 0xE8, CHR 0x81, CHR 0x94, CHR 0xE7, CHR 0xB3, CHR 0xBB, CHR 0xE6, CHR 0x88, CHR 0x91, CHR 0xE4, CHR 0xBB, CHR 0xAC]),
   (''contact.email'', [CHR 0xE9, CHR 0x82, CHR 0xAE, CHR 0xE7, CHR 0xAE, CHR 0xB1]),
   (''contact.address'', [CHR 0xE5, CHR 0x9C, CHR 0xB0, CHR 0xE5, CHR 0x9D, CHR 0x80]),
   (''contact.phone'', [CHR 0xE7, CHR 0x94, CHR 0xB5, CHR 0xE8, CHR 0xAF, CHR 0x9D])]"

definition ui_en :: "(string \<times> string) list" where
  "ui_en = [
   (''nav.home'', ''Home''),
   (''nav.about'', ''About''),
   (''nav.team'', ''Team''),
   (''nav.news'', ''News''),
   (''nav.contact'', ''Contact''),
   (''footer.copyright'', ''Copyright''),
   (''footer.all_rights_reserved'', ''All rights reserved''),
   (''home.hero.title'', ''UOS''),
   (''home.hero.subtitle'', ''Human-Cyber-Physical Convergence Operating System for Power Information Scenarios''),
   (''home.hero.description'', ''The New Stage of Industrial Internet Software Platform Development''),
   (''home.features.title'', ''Core Features''),
   (''home.features.ubiquitous.title'', ''Ubiquitous Connectivity''),
   (''home.features.ubiquitous.desc'', ''Supporting orderly interaction of all production elements''),
   (''home.features.software.title'', ''Software-Defined''),
   (''home.features.software.desc'', ''Controlling system complexity through software''),
   (''home.features.intelligent.title'', ''Intelligence-Driven''),
   (''home.features.intelligent.desc'', ''Implementing intelligent resource management''),
   (''about.title'', ''About the Project''),
   (''team.title'', ''Research Team''),
   (''news.title'', ''News''),
   (''news.read_more'', ''Read More''),
   (''news.back'', ''Back to News''),
   (''contact.title'', ''Contact Us''),
   (''contact.email'', ''Email''),
   (''contact.address'', ''Address''),
   (''contact.phone'', ''Phone'')]"

text \<open>\<^verbatim>\<open>export const ui = { zh: {...}, en: {...} } as const\<close>\<close>

definition ui :: "string object object" where
  "ui = map_of [(''zh'', map_of ui_zh), (''en'', map_of ui_en)]"

text \<open>
  The \<^verbatim>\<open>i18n\<close> block of the Astro configuration:
  \<^verbatim>\<open>defaultLocale: 'zh', locales: ['zh', 'en']\<close>.
\<close>

definition i18n_defaultLocale :: string where
  "i18n_defaultLocale = ''zh''"

definition i18n_locales :: "string list" where
  "i18n_locales = [''zh'', ''en'']"

section \<open>Locale resolution and translation lookup\<close>

text \<open>The one field of a \<^verbatim>\<open>URL\<close> that the module reads.\<close>

record url =
  pathname :: string

text \<open>
  \<^verbatim>\<open>
  export function getLangFromUrl(url: URL) {
    const [, lang] = url.pathname.split('/');
    if (lang in ui) return lang as keyof typeof ui;
    return defaultLang;
  }
  \<close>
  The destructuring binds \<^verbatim>\<open>lang\<close> to the second element of the array, or to
  \<^verbatim>\<open>undefined\<close> when the array is shorter; \<^verbatim>\<open>undefined in ui\<close> tests the
  property key \<^verbatim>\<open>"undefined"\<close>.
\<close>

definition second_element :: "'a list \<Rightarrow> 'a option" where
  "second_element xs = (case xs of _ # x # _ \<Rightarrow> Some x | _ \<Rightarrow> None)"

definition getLangFromUrl :: "url \<Rightarrow> jsval" where
  "getLangFromUrl u =
     (case second_element (js_split (CHR ''/'') (pathname u)) of
        Some lang \<Rightarrow> if has_property ui lang then Str lang else Str defaultLang
      | None \<Rightarrow> if has_property ui ''undefined'' then Undefined else Str defaultLang)"

text \<open>
  \<^verbatim>\<open>keyof typeof ui\<close>, the declared type of the \<^verbatim>\<open>lang\<close> parameter of
  \<^verbatim>\<open>useTranslations\<close>: the union \<^verbatim>\<open>'zh' | 'en'\<close>.
\<close>

datatype lang_key = Zh | En

fun lang_code :: "lang_key \<Rightarrow> string" where
  "lang_code Zh = ''zh''"
| "lang_code En = ''en''"

text \<open>
  The closure \<^verbatim>\<open>t\<close> returned by \<^verbatim>\<open>useTranslations\<close>, with the table it reads
  as an explicit argument:
  \<^verbatim>\<open>
  function t(key) { return ui[lang][key] || ui[defaultLang][key]; }
  \<close>
  Reading a property of \<^verbatim>\<open>undefined\<close> throws a \<^verbatim>\<open>TypeError\<close>; the right operand
  of \<^verbatim>\<open>||\<close> is evaluated only when the left one is falsy.
\<close>

definition t :: "string object object \<Rightarrow> lang_key \<Rightarrow> string \<Rightarrow> js_error + jsval" where
  "t table lang key =
     (case table (lang_code lang) of
        None \<Rightarrow> Inl TypeError
      | Some of_lang \<Rightarrow>
          (let v = get_property of_lang key in
           if truthy v then Inr v
           else (case table defaultLang of
                   None \<Rightarrow> Inl TypeError
                 | Some of_default \<Rightarrow> Inr (get_property of_default key))))"

text \<open>
  \<^verbatim>\<open>
  export function useTranslations(lang: keyof typeof ui) {
    return function t(key: keyof typeof ui[typeof defaultLang]) { ... }
  }
  \<close>
\<close>

definition useTranslations :: "lang_key \<Rightarrow> string \<Rightarrow> js_error + jsval" where
  "useTranslations lang = t ui lang"

section \<open>The resolution rule in the specification's words\<close>

text \<open>
  The specification describes \<^verbatim>\<open>resolveLanguage(requestPath, supportedLanguages,
  defaultLanguage)\<close> as: inspect the first non-empty path segment; if it exactly matches a
  supported language code, that code is the result, otherwise the default language.
  The two definitions below follow these words, to be compared with \<^const>\<open>getLangFromUrl\<close>.
\<close>

definition first_nonempty_segment :: "string \<Rightarrow> string option" where
  "first_nonempty_segment requestPath =
     (case filter (\<lambda>seg. seg \<noteq> []) (js_split (CHR ''/'') requestPath) of
        [] \<Rightarrow> None
      | seg # _ \<Rightarrow> Some seg)"

definition resolveLanguage_spec :: "string \<Rightarrow> string list \<Rightarrow> string \<Rightarrow> string" where
  "resolveLanguage_spec requestPath supportedLanguages defaultLanguage =
     (case first_nonempty_segment requestPath of
        Some seg \<Rightarrow> if seg \<in> set supportedLanguages then seg else defaultLanguage
      | None \<Rightarrow> defaultLanguage)"

section \<open>Content collections: the schemas\<close>

text \<open>
  The repository declares its content collections with Zod schemas
  (\<^verbatim>\<open>z.object({ title: z.string(), ... })\<close>). A schema is data; what it accepts is
  fixed by the meaning of the combinators it is built from, which is modelled here for
  the combinators the repository uses.

  A front-matter value is what the YAML block of a document holds once parsed: a string,
  a number, a boolean, a date, \<^verbatim>\<open>null\<close>, a sequence or a mapping. An unquoted
  \<^verbatim>\<open>2024-01-15\<close> is a date; its payload is the time value in milliseconds since the
  epoch, \<^const>\<open>None\<close> for an invalid date. No schema of the repository accepts a number,
  so the payload of \<open>VNumber\<close> only tells numbers apart.
\<close>

datatype fm_value =
    VString string
  | VNumber int
  | VBoolean bool
  | VDate "int option"
  | VNull
  | VArray "fm_value list"
  | VObject "(string \<times> fm_value) list"

text \<open>The parsed front-matter: a key that the document does not set reads as \<^verbatim>\<open>undefined\<close>.\<close>

type_synonym fm_object = "string \<rightharpoonup> fm_value"

text \<open>
  The combinators: \<^verbatim>\<open>z.string()\<close>, \<^verbatim>\<open>z.date()\<close>, \<^verbatim>\<open>z.enum([...])\<close> and
  \<^verbatim>\<open>.optional()\<close>.
\<close>

datatype zod_type = ZString | ZDate | ZEnum "string list" | ZOptional zod_type

datatype issue_code = invalid_type | invalid_date | invalid_enum_value

datatype zod_issue = ZodIssue (path: string) (code: issue_code)

text \<open>
  Parsing one value (\<^const>\<open>None\<close> is \<^verbatim>\<open>undefined\<close>):
  \<^item> \<^verbatim>\<open>z.string()\<close> accepts a string and nothing else, without coercion;
  \<^item> \<^verbatim>\<open>z.date()\<close> accepts a date object whose time value is a number;
  \<^item> \<^verbatim>\<open>z.enum(values)\<close> accepts a string that is one of the values;
  \<^item> \<^verbatim>\<open>.optional()\<close> accepts \<^verbatim>\<open>undefined\<close> and otherwise defers to the inner type.
  An accepted value is returned as it is.
\<close>

fun parse_type :: "zod_type \<Rightarrow> fm_value option \<Rightarrow> issue_code + fm_value option" where
  "parse_type ZString v =
     (case v of
        Some (VString s) \<Rightarrow> Inr (Some (VString s))
      | _ \<Rightarrow> Inl invalid_type)"
| "parse_type ZDate v =
     (case v of
        Some (VDate (Some ms)) \<Rightarrow> Inr (Some (VDate (Some ms)))
      | Some (VDate None) \<Rightarrow> Inl invalid_date
      | _ \<Rightarrow> Inl invalid_type)"
| "parse_type (ZEnum values) v =
     (case v of
        Some (VString s) \<Rightarrow>
          if s \<in> set values then Inr (Some (VString s)) else Inl invalid_enum_value
      | _ \<Rightarrow> Inl invalid_type)"
| "parse_type (ZOptional inner) v =
     (case v of
        None \<Rightarrow> Inr None
      | Some _ \<Rightarrow> parse_type inner v)"

text \<open>
  \<^verbatim>\<open>z.object(shape)\<close>: every key of the shape is parsed, in the order of the shape; each
  failure adds an issue whose path is the key; the output holds the keys of the shape whose
  value is defined, and no other key of the input.
\<close>

type_synonym zod_object = "(string \<times> zod_type) list"

fun parse_object :: "zod_object \<Rightarrow> fm_object \<Rightarrow> zod_issue list \<times> (string \<times> fm_value) list" where
  "parse_object [] input = ([], [])"
| "parse_object ((key, ty) # shape) input =
     (let (errs, out) = parse_object shape input in
      case parse_type ty (input key) of
        Inl c \<Rightarrow> (ZodIssue key c # errs, out)
      | Inr None \<Rightarrow> (errs, out)
      | Inr (Some v) \<Rightarrow> (errs, (key, v) # out))"

text \<open>\<^verbatim>\<open>schema.safeParse(input)\<close>: the output when there is no issue, else the issues.\<close>

definition safeParse :: "zod_object \<Rightarrow> fm_object \<Rightarrow> zod_issue list + (string \<times> fm_value) list" where
  "safeParse shape input =
     (case parse_object shape input of
        ([], out) \<Rightarrow> Inr out
      | (errs, _) \<Rightarrow> Inl errs)"

text \<open>\<^verbatim>\<open>defineCollection({ type: ..., schema: ... })\<close>\<close>

record collection =
  collection_type :: string
  schema :: zod_object

text \<open>
  \<^verbatim>\<open>src/content/config.ts\<close>:
  \<^verbatim>\<open>
  const news = defineCollection({
    type: 'content',
    schema: z.object({
      title: z.string(),
      description: z.string(),
      pubDate: z.date(),
      lang: z.string().optional(),
    }),
  });
  \<close>
  and \<^verbatim>\<open>docs\<close>, declared with the same schema.
\<close>

definition news :: collection where
  "news = \<lparr>collection_type = ''content'',
           schema = [(''title'', ZString),
                     (''description'', ZString),
                     (''pubDate'', ZDate),
                     (''lang'', ZOptional ZString)]\<rparr>"

definition docs :: collection where
  "docs = \<lparr>collection_type = ''content'',
           schema = [(''title'', ZString),
                     (''description'', ZString),
                     (''pubDate'', ZDate),
                     (''lang'', ZOptional ZString)]\<rparr>"

text \<open>
  The other collection configuration of the repository:
  \<^verbatim>\<open>
  const newsCollection = defineCollection({
    type: 'content',
    schema: z.object({
      title: z.string(),
      description: z.string(),
      pubDate: z.date(),
      lang: z.enum(['zh', 'en']),
      image: z.string().optional(),
    }),
  });
  \<close>
\<close>

definition newsCollection :: collection where
  "newsCollection = \<lparr>collection_type = ''content'',
           schema = [(''title'', ZString),
                     (''description'', ZString),
                     (''pubDate'', ZDate),
                     (''lang'', ZEnum [''zh'', ''en'']),
                     (''image'', ZOptional ZString)]\<rparr>"

section \<open>Content collections: loading a batch\<close>

text \<open>
  The repository declares only schemas. The loader that discovers the documents of a
  collection, parses their front-matter and applies the schema belongs to the site
  framework and is not among the sources; it is modelled from the specification's
  description of \<^verbatim>\<open>loadCollection(collectionName, schema, rawDocuments)\<close>.
\<close>

text \<open>
  Modelled from the spec: a raw document, which the loader does not declare in the
  sources, is front-matter key/value pairs plus body text.
\<close>

record raw_document =
  frontmatter :: fm_object
  raw_body :: string

text \<open>
  Modelled from the spec: a Document Record, absent from the sources, holds the validated
  fields of one document and its body. The fields are kept under their front-matter
  names, as the schema returns them.
\<close>

record document_record =
  data :: "(string \<times> fm_value) list"
  body :: string

text \<open>
  Modelled from the spec: a validation error, absent from the sources, identifies the
  offending document (by its position in the batch) and the offending fields (by the
  issues of the schema).
\<close>

record validation_error =
  document :: nat
  issues :: "zod_issue list"

text \<open>
  Modelled from the spec: the validation of one document, absent from the sources. A
  record is either fully valid or rejected in its entirety.
\<close>

definition validate_document :: "zod_object \<Rightarrow> raw_document \<Rightarrow> zod_issue list + document_record" where
  "validate_document shape raw =
     (case safeParse shape (frontmatter raw) of
        Inl errs \<Rightarrow> Inl errs
      | Inr validated \<Rightarrow> Inr \<lparr>data = validated, body = raw_body raw\<rparr>)"

text \<open>
  Modelled from the spec: the pass over the batch, absent from the sources. Each document
  is validated on its own; a valid one adds its record, in the order of discovery; a
  failing one adds one validation error and the other documents continue to load. The
  counter is the position of the next document.
\<close>

fun load_from :: "zod_object \<Rightarrow> nat \<Rightarrow> raw_document list
    \<Rightarrow> document_record list \<times> validation_error list" where
  "load_from shape i [] = ([], [])"
| "load_from shape i (raw # raws) =
     (let (records, errors) = load_from shape (Suc i) raws in
      case validate_document shape raw of
        Inr r \<Rightarrow> (r # records, errors)
      | Inl errs \<Rightarrow> (records, \<lparr>document = i, issues = errs\<rparr> # errors))"

text \<open>
  Modelled from the spec: \<^verbatim>\<open>loadCollection\<close>, absent from the sources, returns the
  records of the valid documents and the validation errors of the others.
\<close>

definition loadCollection :: "string \<Rightarrow> zod_object \<Rightarrow> raw_document list
    \<Rightarrow> document_record list \<times> validation_error list" where
  "loadCollection collectionName shape rawDocuments = load_from shape 0 rawDocuments"

section \<open>Documents of the repository\<close>

text \<open>
  The front-matter of \<^verbatim>\<open>src/content/news/project-launch-en.md\<close> and of
  \<^verbatim>\<open>src/content/news/tech-workshop-en.md\<close>, as parsed: the unquoted dates
  \<^verbatim>\<open>2024-01-15\<close> and \<^verbatim>\<open>2025-01-10\<close> are dates at midnight UTC.
\<close>

definition project_launch_en :: fm_object where
  "project_launch_en = map_of
     [(''title'', VString ''UOS Project Officially Launched''),
      (''description'', VString (''The Human-Cyber-Physical Convergence Operating System '' @
         ''project for power information scenarios has been officially launched, with '' @
         ''Nanjing University and industry partners working together to advance the project.'')),
      (''pubDate'', VDate (Some 1705276800000)),
      (''lang'', VString ''en'')]"

definition tech_workshop_en :: fm_object where
  "tech_workshop_en = map_of
     [(''title'', VString ''First Technical Workshop Successfully Held''),
      (''description'', VString (''The UOS project team held its first technical workshop to '' @
         ''discuss the core technical architecture and implementation of the '' @
         ''human-cyber-physical convergence operating system.'')),
      (''pubDate'', VDate (Some 1736467200000)),
      (''lang'', VString ''en'')]"

section \<open>Properties of locale resolution and translation lookup\<close>

lemma js_split_not_Nil: "js_split sep s \<noteq> []"
  by (induction s) (auto split: list.splits)

lemma js_split_no_sep: "sep \<notin> set a \<Longrightarrow> js_split sep a = [a]"
  by (induction a) auto

lemma js_split_append: "sep \<notin> set a \<Longrightarrow> js_split sep (a @ sep # b) = a # js_split sep b"
  by (induction a) auto

lemma has_property_ui:
  "has_property ui k \<longleftrightarrow> k = ''zh'' \<or> k = ''en'' \<or> k \<in> set object_prototype_keys"
  by (auto simp: has_property_def ui_def)

lemma second_element_split:
  assumes "CHR ''/'' \<notin> set pre" "CHR ''/'' \<notin> set seg" "tail = [] \<or> (\<exists>r. tail = CHR ''/'' # r)"
  shows "second_element (js_split (CHR ''/'') (pre @ ''/'' @ seg @ tail)) = Some seg"
proof -
  have "js_split (CHR ''/'') (seg @ tail) = seg # tl (js_split (CHR ''/'') (seg @ tail))"
    using assms(2,3) by (auto simp: js_split_no_sep js_split_append)
  then obtain ps where ps: "js_split (CHR ''/'') (seg @ tail) = seg # ps" by blast
  have "js_split (CHR ''/'') (pre @ CHR ''/'' # (seg @ tail)) = pre # seg # ps"
    using assms(1) ps by (simp add: js_split_append)
  then show ?thesis by (simp add: second_element_def)
qed

lemma undefined_not_inherited: "''undefined'' \<notin> set object_prototype_keys"
  by (simp add: object_prototype_keys_def)

lemma getLangFromUrl_cases:
  "getLangFromUrl u =
     (case second_element (js_split (CHR ''/'') (pathname u)) of
        Some lang \<Rightarrow> if lang = ''zh'' \<or> lang = ''en'' \<or> lang \<in> set object_prototype_keys
                      then Str lang else Str ''zh''
      | None \<Rightarrow> Str ''zh'')"
  by (simp add: getLangFromUrl_def has_property_ui undefined_not_inherited defaultLang_def
           split: option.split)

text \<open>
  Claim C2, as the specification words it, fails on the code. The pathname
  \<^verbatim>\<open>//en/about\<close> has \<^verbatim>\<open>en\<close> as its first non-empty segment, so the rule of
  the specification resolves it to \<^verbatim>\<open>en\<close>; the code reads the piece right after the
  first slash, which is empty, and returns the default language.
\<close>

theorem getLangFromUrl_skips_no_empty_segment:
  "resolveLanguage_spec ''//en/about'' [''zh'', ''en''] ''zh'' = ''en'' \<and>
   getLangFromUrl \<lparr>pathname = ''//en/about''\<rparr> = Str ''zh''"
  by (simp add: resolveLanguage_spec_def first_nonempty_segment_def getLangFromUrl_cases
        second_element_def object_prototype_keys_def)

text \<open>
  Claim C2, amended: \<^const>\<open>getLangFromUrl\<close> inspects the segment that follows the first
  \<^verbatim>\<open>/\<close> of the pathname (the second piece of the split; empty segments are not
  skipped). When that segment is \<^verbatim>\<open>zh\<close> or \<^verbatim>\<open>en\<close> the result is that code;
  when it is any other string that is not a property name inherited from
  \<^verbatim>\<open>Object.prototype\<close>, or when the pathname has no \<^verbatim>\<open>/\<close> at all, the result is
  the default language \<^verbatim>\<open>zh\<close>.
\<close>

theorem getLangFromUrl_segment_after_slash:
  "(CHR ''/'' \<notin> set pre \<and> CHR ''/'' \<notin> set seg \<and> (rest = [] \<or> (\<exists>r. rest = CHR ''/'' # r)) \<and>
      pathname u = pre @ ''/'' @ seg @ rest \<longrightarrow>
        (seg = ''zh'' \<or> seg = ''en'' \<longrightarrow> getLangFromUrl u = Str seg) \<and>
        (seg \<noteq> ''zh'' \<and> seg \<noteq> ''en'' \<and> seg \<notin> set object_prototype_keys \<longrightarrow>
           getLangFromUrl u = Str ''zh'')) \<and>
   (CHR ''/'' \<notin> set (pathname u) \<longrightarrow> getLangFromUrl u = Str ''zh'')"
proof (intro conjI impI)
  assume shape: "CHR ''/'' \<notin> set pre \<and> CHR ''/'' \<notin> set seg \<and>
      (rest = [] \<or> (\<exists>r. rest = CHR ''/'' # r)) \<and> pathname u = pre @ ''/'' @ seg @ rest"
  then have snd: "second_element (js_split (CHR ''/'') (pathname u)) = Some seg"
    using second_element_split [of pre seg rest] by simp
  { assume "seg = ''zh'' \<or> seg = ''en''"
    with snd show "getLangFromUrl u = Str seg"
      by (auto simp: getLangFromUrl_cases) }
  { assume "seg \<noteq> ''zh'' \<and> seg \<noteq> ''en'' \<and> seg \<notin> set object_prototype_keys"
    with snd show "getLangFromUrl u = Str ''zh''"
      by (simp add: getLangFromUrl_cases) }
next
  assume "CHR ''/'' \<notin> set (pathname u)"
  then have "second_element (js_split (CHR ''/'') (pathname u)) = None"
    by (simp add: js_split_no_sep second_element_def)
  then show "getLangFromUrl u = Str ''zh''"
    by (simp add: getLangFromUrl_cases)
qed

text \<open>
  The amended rule at the four paths the specification lists, and at the empty path:
  \<^verbatim>\<open>/en/about\<close> gives \<^verbatim>\<open>en\<close>; \<^verbatim>\<open>/about\<close>, \<^verbatim>\<open>/\<close>, \<^verbatim>\<open>/fr/about\<close> and the
  empty path give \<^verbatim>\<open>zh\<close>.
\<close>

theorem getLangFromUrl_segment_after_slash_witness:
  "getLangFromUrl \<lparr>pathname = ''/en/about''\<rparr> = Str ''en'' \<and>
   getLangFromUrl \<lparr>pathname = ''/about''\<rparr> = Str ''zh'' \<and>
   getLangFromUrl \<lparr>pathname = ''/''\<rparr> = Str ''zh'' \<and>
   getLangFromUrl \<lparr>pathname = ''/fr/about''\<rparr> = Str ''zh'' \<and>
   getLangFromUrl \<lparr>pathname = []\<rparr> = Str ''zh''"
proof (intro conjI)
  show "getLangFromUrl \<lparr>pathname = ''/en/about''\<rparr> = Str ''en''"
    using getLangFromUrl_segment_after_slash
      [of "[]" "''en''" "''/about''" "\<lparr>pathname = ''/en/about''\<rparr>"]
    by simp
  show "getLangFromUrl \<lparr>pathname = ''/about''\<rparr> = Str ''zh''"
    using getLangFromUrl_segment_after_slash
      [of "[]" "''about''" "[]" "\<lparr>pathname = ''/about''\<rparr>"]
    by (simp add: object_prototype_keys_def)
  show "getLangFromUrl \<lparr>pathname = ''/''\<rparr> = Str ''zh''"
    using getLangFromUrl_segment_after_slash
      [of "[]" "[]" "[]" "\<lparr>pathname = ''/''\<rparr>"]
    by (simp add: object_prototype_keys_def)
  show "getLangFromUrl \<lparr>pathname = ''/fr/about''\<rparr> = Str ''zh''"
    using getLangFromUrl_segment_after_slash
      [of "[]" "''fr''" "''/about''" "\<lparr>pathname = ''/fr/about''\<rparr>"]
    by (simp add: object_prototype_keys_def)
  show "getLangFromUrl \<lparr>pathname = []\<rparr> = Str ''zh''"
    using getLangFromUrl_segment_after_slash
      [of "[]" "[]" "[]" "\<lparr>pathname = []\<rparr>"]
    by simp
qed

text \<open>
  Claim C3 (the result is always a supported language code) against the code: for the
  pathname \<^verbatim>\<open>/constructor\<close> the test \<^verbatim>\<open>lang in ui\<close> succeeds through the prototype
  chain, and the function returns \<^verbatim>\<open>constructor\<close>, which is a key of neither
  \<^const>\<open>ui\<close> nor \<^const>\<open>languages\<close> and is not among the configured locales.
\<close>

theorem getLangFromUrl_inherited_key:
  "getLangFromUrl \<lparr>pathname = ''/constructor''\<rparr> = Str ''constructor'' \<and>
   ui ''constructor'' = None \<and> languages ''constructor'' = None \<and>
   ''constructor'' \<notin> set i18n_locales"
  by (simp add: getLangFromUrl_cases second_element_def object_prototype_keys_def ui_def
        languages_def i18n_locales_def)

text \<open>
  Claim C10: \<^const>\<open>getLangFromUrl\<close> depends only on the second piece of the pathname split
  at \<^verbatim>\<open>/\<close>. Two URLs whose pathnames agree on that piece resolve to the same language;
  in particular whatever follows the segment after the leading slash, and whether anything
  follows it, does not change the result.
\<close>

theorem getLangFromUrl_later_segments_irrelevant:
  "(second_element (js_split (CHR ''/'') (pathname u)) =
      second_element (js_split (CHR ''/'') (pathname v)) \<longrightarrow>
      getLangFromUrl u = getLangFromUrl v) \<and>
   (CHR ''/'' \<notin> set seg \<longrightarrow>
      getLangFromUrl \<lparr>pathname = ''/'' @ seg @ ''/'' @ rest1\<rparr> =
      getLangFromUrl \<lparr>pathname = ''/'' @ seg @ ''/'' @ rest2\<rparr> \<and>
      getLangFromUrl \<lparr>pathname = ''/'' @ seg @ ''/'' @ rest1\<rparr> =
      getLangFromUrl \<lparr>pathname = ''/'' @ seg\<rparr>)"
proof (intro conjI impI)
  assume "second_element (js_split (CHR ''/'') (pathname u)) =
      second_element (js_split (CHR ''/'') (pathname v))"
  then show "getLangFromUrl u = getLangFromUrl v"
    by (simp add: getLangFromUrl_def)
next
  assume seg: "CHR ''/'' \<notin> set seg"
  have a: "second_element (js_split (CHR ''/'') (''/'' @ seg @ ''/'' @ r)) = Some seg" for r
    using second_element_split [of "[]" seg "CHR ''/'' # r"] seg by simp
  have b: "second_element (js_split (CHR ''/'') (''/'' @ seg)) = Some seg"
    using second_element_split [of "[]" seg "[]"] seg by simp
  show "getLangFromUrl \<lparr>pathname = ''/'' @ seg @ ''/'' @ rest1\<rparr> =
      getLangFromUrl \<lparr>pathname = ''/'' @ seg @ ''/'' @ rest2\<rparr>"
    using a [of rest1] a [of rest2] by (simp add: getLangFromUrl_def)
  show "getLangFromUrl \<lparr>pathname = ''/'' @ seg @ ''/'' @ rest1\<rparr> =
      getLangFromUrl \<lparr>pathname = ''/'' @ seg\<rparr>"
    using a [of rest1] b by (simp add: getLangFromUrl_def)
qed

text \<open>
  Claim C10 at \<^verbatim>\<open>/en/about\<close>, \<^verbatim>\<open>/en/news/1\<close> and \<^verbatim>\<open>/en\<close>: all three resolve alike.
\<close>

theorem getLangFromUrl_later_segments_irrelevant_witness:
  "getLangFromUrl \<lparr>pathname = ''/en/about''\<rparr> = getLangFromUrl \<lparr>pathname = ''/en/news/1''\<rparr> \<and>
   getLangFromUrl \<lparr>pathname = ''/en/about''\<rparr> = getLangFromUrl \<lparr>pathname = ''/en''\<rparr> \<and>
   getLangFromUrl \<lparr>pathname = ''/en/about''\<rparr> = Str ''en''"
proof -
  have "CHR ''/'' \<notin> set ''en''" by simp
  then show ?thesis
    using getLangFromUrl_later_segments_irrelevant
      [of "\<lparr>pathname = ''/en/about''\<rparr>" "\<lparr>pathname = ''/en/news/1''\<rparr>" "''en''" "''about''" "''news/1''"]
    by (simp add: getLangFromUrl_cases second_element_def)
qed

lemma ui_lang_code:
  "ui (lang_code lang) = Some (map_of (case lang of Zh \<Rightarrow> ui_zh | En \<Rightarrow> ui_en))"
  by (cases lang) (simp_all add: ui_def)

lemma ui_defaultLang: "ui defaultLang = Some (map_of ui_zh)"
  by (simp add: ui_def defaultLang_def)

lemma ui_zh_values_nonempty: "\<forall>(k, v) \<in> set ui_zh. v \<noteq> []"
  by (simp add: ui_zh_def)

lemma ui_en_values_nonempty: "\<forall>(k, v) \<in> set ui_en. v \<noteq> []"
  by (simp add: ui_en_def)

lemma ui_same_keys: "map fst ui_en = map fst ui_zh"
  by (simp add: ui_zh_def ui_en_def)

lemma ui_value_nonempty:
  assumes "map_of (case lang of Zh \<Rightarrow> ui_zh | En \<Rightarrow> ui_en) key = Some s"
  shows "s \<noteq> []"
proof (cases lang)
  case Zh
  with assms have "(key, s) \<in> set ui_zh" by (simp add: map_of_SomeD)
  with ui_zh_values_nonempty show ?thesis by blast
next
  case En
  with assms have "(key, s) \<in> set ui_en" by (simp add: map_of_SomeD)
  with ui_en_values_nonempty show ?thesis by blast
qed

lemma ui_key_in_every_table:
  assumes "map_of ui_zh key \<noteq> None"
  shows "map_of (case lang of Zh \<Rightarrow> ui_zh | En \<Rightarrow> ui_en) key \<noteq> None"
proof -
  from assms have "key \<in> set (map fst ui_zh)"
    by (simp add: map_of_eq_None_iff)
  then have "key \<in> set (map fst (case lang of Zh \<Rightarrow> ui_zh | En \<Rightarrow> ui_en))"
    by (cases lang) (simp_all only: ui_same_keys lang_key.case)
  then show ?thesis
    by (simp add: map_of_eq_None_iff)
qed

lemma t_no_TypeError:
  assumes "table (lang_code lang) = Some of_lang" "table defaultLang = Some of_default"
  shows "t table lang key =
           Inr (if truthy (get_property of_lang key) then get_property of_lang key
                else get_property of_default key)"
  using assms by (simp add: t_def)

lemma useTranslations_value:
  "useTranslations lang key =
     Inr (if truthy (get_property (map_of (case lang of Zh \<Rightarrow> ui_zh | En \<Rightarrow> ui_en)) key)
          then get_property (map_of (case lang of Zh \<Rightarrow> ui_zh | En \<Rightarrow> ui_en)) key
          else get_property (map_of ui_zh) key)"
  unfolding useTranslations_def
  by (rule t_no_TypeError [OF ui_lang_code ui_defaultLang])

text \<open>
  Claim C1, as the specification words it, fails on the code. For the key
  \<^verbatim>\<open>nav.missing\<close>, registered in neither table of \<^const>\<open>ui\<close>, the lookup raises no
  error and returns \<^verbatim>\<open>undefined\<close>. And on a table where the string registered for
  English and \<^verbatim>\<open>nav.home\<close> is the empty string, the lookup does not return that
  registered string but the one of the default language.
\<close>

theorem useTranslations_missing_key_undefined:
  "map_of ui_en ''nav.missing'' = None \<and> map_of ui_zh ''nav.missing'' = None \<and>
   useTranslations En ''nav.missing'' = Inr Undefined \<and>
   t (map_of [(''zh'', map_of [(''nav.home'', ''zh home'')]),
              (''en'', map_of [(''nav.home'', [])])]) En ''nav.home'' = Inr (Str ''zh home'')"
  by (simp add: useTranslations_value get_property_def object_prototype_keys_def
        ui_en_def ui_zh_def t_def defaultLang_def)

text \<open>
  Claim C1, amended: the lookup is the closure \<^const>\<open>t\<close>, and \<^const>\<open>useTranslations\<close>
  is that closure on the table \<^const>\<open>ui\<close>. On every table that holds the requested
  and the default language, for every key, the lookup raises no error. It returns the
  string registered for the language and the key when that string is non-empty. When the
  language's table has no entry for the key (and the key is not a property name inherited
  from \<^verbatim>\<open>Object.prototype\<close>), it returns the string registered for the default language
  and the key, and \<^verbatim>\<open>undefined\<close> when the key is absent from both tables. On the
  table \<^const>\<open>ui\<close> both languages are present and every registered string is non-empty, so
  a registered string is returned as it is, and for every key of the default language's
  table, which is the declared type of the key, the result is a non-empty string.
\<close>

theorem t_lookup_with_fallback:
  "(table (lang_code lang) = Some of_lang \<and> table defaultLang = Some of_default \<longrightarrow>
      (\<exists>v. t table lang key = Inr v) \<and>
      (\<forall>s. of_lang key = Some s \<and> s \<noteq> [] \<longrightarrow> t table lang key = Inr (Str s)) \<and>
      (of_lang key = None \<and> key \<notin> set object_prototype_keys \<longrightarrow>
         (\<forall>s. of_default key = Some s \<longrightarrow> t table lang key = Inr (Str s)) \<and>
         (of_default key = None \<longrightarrow> t table lang key = Inr Undefined))) \<and>
   useTranslations lang key = t ui lang key \<and>
   ui (lang_code lang) \<noteq> None \<and> ui defaultLang \<noteq> None \<and>
   (\<forall>of_ui s. ui (lang_code lang) = Some of_ui \<and> of_ui key = Some s \<longrightarrow>
      s \<noteq> [] \<and> useTranslations lang key = Inr (Str s)) \<and>
   (\<forall>of_ui. ui defaultLang = Some of_ui \<and> of_ui key \<noteq> None \<longrightarrow>
      (\<exists>s. s \<noteq> [] \<and> useTranslations lang key = Inr (Str s)))"
proof (intro conjI allI impI)
  assume both: "table (lang_code lang) = Some of_lang \<and> table defaultLang = Some of_default"
  then have v: "t table lang key =
           Inr (if truthy (get_property of_lang key) then get_property of_lang key
                else get_property of_default key)"
    by (simp add: t_no_TypeError)
  then show "\<exists>v. t table lang key = Inr v" by simp
  { fix s
    assume "of_lang key = Some s \<and> s \<noteq> []"
    then have "get_property of_lang key = Str s" and "truthy (Str s)"
      by (simp_all add: get_property_def)
    with v show "t table lang key = Inr (Str s)" by simp }
  { fix s
    assume "of_lang key = None \<and> key \<notin> set object_prototype_keys" and "of_default key = Some s"
    then have "get_property of_lang key = Undefined" and "get_property of_default key = Str s"
      by (simp_all add: get_property_def)
    with v show "t table lang key = Inr (Str s)" by simp }
  { assume "of_lang key = None \<and> key \<notin> set object_prototype_keys" and "of_default key = None"
    then have "get_property of_lang key = Undefined"
      and "get_property of_default key = Undefined"
      by (simp_all add: get_property_def)
    with v show "t table lang key = Inr Undefined" by simp }
next
  show "useTranslations lang key = t ui lang key"
    by (simp add: useTranslations_def)
  show "ui (lang_code lang) \<noteq> None" by (simp add: ui_lang_code)
  show "ui defaultLang \<noteq> None" by (simp add: ui_defaultLang)
next
  fix of_ui s
  assume "ui (lang_code lang) = Some of_ui \<and> of_ui key = Some s"
  then have found: "map_of (case lang of Zh \<Rightarrow> ui_zh | En \<Rightarrow> ui_en) key = Some s"
    by (auto simp: ui_lang_code)
  then have nonempty: "s \<noteq> []" by (rule ui_value_nonempty)
  { show "s \<noteq> []" by (rule nonempty) }
  { from found nonempty show "useTranslations lang key = Inr (Str s)"
      by (simp add: useTranslations_value get_property_def) }
next
  fix of_ui
  assume "ui defaultLang = Some of_ui \<and> of_ui key \<noteq> None"
  then have "map_of ui_zh key \<noteq> None" by (auto simp: ui_defaultLang)
  then have "map_of (case lang of Zh \<Rightarrow> ui_zh | En \<Rightarrow> ui_en) key \<noteq> None"
    by (rule ui_key_in_every_table)
  then obtain s where found: "map_of (case lang of Zh \<Rightarrow> ui_zh | En \<Rightarrow> ui_en) key = Some s"
    by blast
  then have "s \<noteq> []" by (rule ui_value_nonempty)
  with found have "s \<noteq> [] \<and> useTranslations lang key = Inr (Str s)"
    by (simp add: useTranslations_value get_property_def)
  then show "\<exists>s. s \<noteq> [] \<and> useTranslations lang key = Inr (Str s)" ..
qed

text \<open>
  The amended claim C1 at four inputs. A key registered for the requested language:
  \<^verbatim>\<open>nav.home\<close> for English on \<^const>\<open>ui\<close>. The fallback of the specification's fourth
  testable property, on a table whose English part lacks \<^verbatim>\<open>nav.home\<close> while the
  Chinese part is that of the source: the result is the Chinese string. A key registered
  nowhere, \<^verbatim>\<open>nav.missing\<close> on \<^const>\<open>ui\<close>: the result is \<^verbatim>\<open>undefined\<close>. A key of
  the default table, \<^verbatim>\<open>news.back\<close>: the result is a non-empty string.
\<close>

theorem t_lookup_with_fallback_witness:
  "useTranslations En ''nav.home'' = Inr (Str ''Home'') \<and>
   t (map_of [(''zh'', map_of ui_zh), (''en'', Map.empty)]) En ''nav.home''
     = Inr (Str [CHR 0xE9, CHR 0xA6, CHR 0x96, CHR 0xE9, CHR 0xA1, CHR 0xB5]) \<and>
   useTranslations En ''nav.missing'' = Inr Undefined \<and>
   (\<exists>s. s \<noteq> [] \<and> useTranslations Zh ''news.back'' = Inr (Str s))"
proof (intro conjI)
  have "ui (lang_code En) = Some (map_of ui_en) \<and> map_of ui_en ''nav.home'' = Some ''Home''"
    by (simp add: ui_def ui_en_def)
  with t_lookup_with_fallback [where lang = En and key = "''nav.home''"]
  show "useTranslations En ''nav.home'' = Inr (Str ''Home'')" by blast
next
  let ?table = "map_of [(''zh'', map_of ui_zh), (''en'', Map.empty)] :: string object object"
  let ?home = "[CHR 0xE9, CHR 0xA6, CHR 0x96, CHR 0xE9, CHR 0xA1, CHR 0xB5]"
  have "?table (lang_code En) = Some Map.empty \<and> ?table defaultLang = Some (map_of ui_zh)"
    by (simp add: defaultLang_def)
  moreover have "(Map.empty :: string object) ''nav.home'' = None \<and>
      ''nav.home'' \<notin> set object_prototype_keys"
    by (simp add: object_prototype_keys_def)
  moreover have "map_of ui_zh ''nav.home'' = Some ?home"
    by (simp add: ui_zh_def)
  ultimately show "t ?table En ''nav.home'' = Inr (Str ?home)"
    using t_lookup_with_fallback [where table = ?table and lang = En and key = "''nav.home''"
        and of_lang = Map.empty and of_default = "map_of ui_zh"]
    by blast
next
  have "ui (lang_code En) = Some (map_of ui_en) \<and> ui defaultLang = Some (map_of ui_zh)"
    by (simp add: ui_def defaultLang_def)
  moreover have "map_of ui_en ''nav.missing'' = None \<and> map_of ui_zh ''nav.missing'' = None \<and>
      ''nav.missing'' \<notin> set object_prototype_keys"
    by (simp add: ui_en_def ui_zh_def object_prototype_keys_def)
  ultimately have "t ui En ''nav.missing'' = Inr Undefined"
    using t_lookup_with_fallback [where table = ui and lang = En and key = "''nav.missing''"
        and of_lang = "map_of ui_en" and of_default = "map_of ui_zh"]
    by blast
  moreover have "useTranslations En ''nav.missing'' = t ui En ''nav.missing''"
    using t_lookup_with_fallback [where lang = En and key = "''nav.missing''"] by blast
  ultimately show "useTranslations En ''nav.missing'' = Inr Undefined" by simp
next
  have "ui defaultLang = Some (map_of ui_zh) \<and> map_of ui_zh ''news.back'' \<noteq> None"
    by (simp add: ui_def ui_zh_def defaultLang_def)
  with t_lookup_with_fallback [where lang = Zh and key = "''news.back''"]
  show "\<exists>s. s \<noteq> [] \<and> useTranslations Zh ''news.back'' = Inr (Str s)" by blast
qed

text \<open>
  Claim C8: the default language is a key of \<^const>\<open>ui\<close> and of \<^const>\<open>languages\<close>, and
  the configured default locale is one of the configured locales; \<^const>\<open>ui\<close> and
  \<^const>\<open>languages\<close> have the same keys; every translation key of the default language's table
  is a key of every table of \<^const>\<open>ui\<close>. For any table that has the requested and the
  default language, a key registered for the default language is looked up without error
  and never gives \<^verbatim>\<open>undefined\<close>; where the requested language lacks the key, the result
  is the default language's string.
\<close>

theorem locale_table_invariant:
  "ui defaultLang \<noteq> None \<and> languages defaultLang \<noteq> None \<and>
   i18n_defaultLocale \<in> set i18n_locales \<and>
   (\<forall>code. ui code \<noteq> None \<longleftrightarrow> languages code \<noteq> None) \<and>
   (\<forall>code of_code of_default k.
      ui defaultLang = Some of_default \<and> ui code = Some of_code \<and> of_default k \<noteq> None \<longrightarrow>
      of_code k \<noteq> None) \<and>
   (\<forall>table of_lang of_default s.
      table (lang_code lang) = Some of_lang \<and> table defaultLang = Some of_default \<and>
      of_default key = Some s \<longrightarrow>
      (\<exists>v. t table lang key = Inr v \<and> v \<noteq> Undefined) \<and>
      (of_lang key = None \<and> key \<notin> set object_prototype_keys \<longrightarrow>
         t table lang key = Inr (Str s)))"
proof (intro conjI allI impI)
  show "ui defaultLang \<noteq> None" by (simp add: ui_defaultLang)
  show "languages defaultLang \<noteq> None" by (simp add: languages_def defaultLang_def)
  show "i18n_defaultLocale \<in> set i18n_locales"
    by (simp add: i18n_defaultLocale_def i18n_locales_def)
next
  fix code
  show "ui code \<noteq> None \<longleftrightarrow> languages code \<noteq> None"
    by (simp add: ui_def languages_def)
next
  fix code of_code of_default k
  assume a: "ui defaultLang = Some of_default \<and> ui code = Some of_code \<and> of_default k \<noteq> None"
  then have zh: "map_of ui_zh k \<noteq> None" by (auto simp: ui_defaultLang)
  from a have "code = ''zh'' \<or> code = ''en''"
    by (auto simp: ui_def split: if_splits)
  then obtain l where "code = lang_code l"
    by (metis lang_code.simps)
  with a have "of_code = map_of (case l of Zh \<Rightarrow> ui_zh | En \<Rightarrow> ui_en)"
    by (auto simp: ui_lang_code)
  with ui_key_in_every_table [OF zh, of l] show "of_code k \<noteq> None" by simp
next
  fix table :: "string object object" and of_lang of_default s
  assume a: "table (lang_code lang) = Some of_lang \<and> table defaultLang = Some of_default \<and>
      of_default key = Some s"
  then have v: "t table lang key =
           Inr (if truthy (get_property of_lang key) then get_property of_lang key
                else get_property of_default key)"
    by (simp add: t_no_TypeError)
  from a have d: "get_property of_default key = Str s"
    by (simp add: get_property_def)
  show "\<exists>v. t table lang key = Inr v \<and> v \<noteq> Undefined"
    using v d by (cases "get_property of_lang key") auto
  { assume "of_lang key = None \<and> key \<notin> set object_prototype_keys"
    then have "get_property of_lang key = Undefined"
      by (simp add: get_property_def)
    with v d show "t table lang key = Inr (Str s)" by simp }
qed

text \<open>
  Claim C8 at the key \<^verbatim>\<open>nav.team\<close> of the tables of the source, and at a table whose
  English part lacks a key that the Chinese part has.
\<close>

theorem locale_table_invariant_witness:
  "map_of ui_en ''nav.team'' \<noteq> None \<and>
   t (map_of [(''zh'', map_of [(''only.zh'', ''x'')]), (''en'', Map.empty)]) En ''only.zh''
     = Inr (Str ''x'')"
proof (intro conjI)
  have "ui defaultLang = Some (map_of ui_zh) \<and> ui ''en'' = Some (map_of ui_en) \<and>
      map_of ui_zh ''nav.team'' \<noteq> None"
    by (simp add: ui_def defaultLang_def ui_zh_def)
  with locale_table_invariant [of En "''nav.team''"]
  show "map_of ui_en ''nav.team'' \<noteq> None" by blast
next
  let ?table = "map_of [(''zh'', map_of [(''only.zh'', ''x'')]), (''en'', Map.empty)]"
  have "?table (lang_code En) = Some Map.empty \<and>
      ?table defaultLang = Some (map_of [(''only.zh'', ''x'')]) \<and>
      map_of [(''only.zh'', ''x'')] ''only.zh'' = Some ''x'' \<and>
      (Map.empty :: string object) ''only.zh'' = None \<and>
      ''only.zh'' \<notin> set object_prototype_keys"
    by (simp add: defaultLang_def object_prototype_keys_def)
  with locale_table_invariant [of En "''only.zh''"]
  show "t ?table En ''only.zh'' = Inr (Str ''x'')" by blast
qed

text \<open>
  Claim C9: the closure \<^const>\<open>t\<close> returns the default language's entry whenever the
  requested language's value is falsy, in particular when it is registered as the empty
  string. So when the default language's entry for a key is a non-empty string, the result
  is truthy and is never the empty string; and on the tables of the source the result is
  never the empty string for any key of the default table.
\<close>

theorem t_falls_back_on_falsy:
  "(table (lang_code lang) = Some of_lang \<and> table defaultLang = Some of_default \<longrightarrow>
      (\<not> truthy (get_property of_lang key) \<longrightarrow>
         t table lang key = Inr (get_property of_default key)) \<and>
      (of_lang key = Some [] \<longrightarrow> t table lang key = Inr (get_property of_default key)) \<and>
      (\<forall>s. of_default key = Some s \<and> s \<noteq> [] \<longrightarrow>
         t table lang key \<noteq> Inr (Str []) \<and> (\<exists>v. t table lang key = Inr v \<and> truthy v))) \<and>
   (\<forall>of_default. ui defaultLang = Some of_default \<and> of_default key \<noteq> None \<longrightarrow>
      useTranslations lang key \<noteq> Inr (Str []))"
proof (intro conjI allI impI)
  assume a: "table (lang_code lang) = Some of_lang \<and> table defaultLang = Some of_default"
  then have v: "t table lang key =
           Inr (if truthy (get_property of_lang key) then get_property of_lang key
                else get_property of_default key)"
    by (simp add: t_no_TypeError)
  { assume "\<not> truthy (get_property of_lang key)"
    with v show "t table lang key = Inr (get_property of_default key)" by simp }
  { assume "of_lang key = Some []"
    then have "\<not> truthy (get_property of_lang key)" by (simp add: get_property_def)
    with v show "t table lang key = Inr (get_property of_default key)" by simp }
  { fix s
    assume "of_default key = Some s \<and> s \<noteq> []"
    then have d: "truthy (get_property of_default key)" by (simp add: get_property_def)
    with v have "\<exists>v. t table lang key = Inr v \<and> truthy v" by simp
    then show "t table lang key \<noteq> Inr (Str [])" by auto }
  { fix s
    assume "of_default key = Some s \<and> s \<noteq> []"
    then have d: "truthy (get_property of_default key)" by (simp add: get_property_def)
    with v show "\<exists>v. t table lang key = Inr v \<and> truthy v" by simp }
next
  fix of_default
  assume "ui defaultLang = Some of_default \<and> of_default key \<noteq> None"
  then obtain s where zh: "map_of ui_zh key = Some s" by (auto simp: ui_defaultLang)
  then have "(key, s) \<in> set ui_zh" by (rule map_of_SomeD)
  with ui_zh_values_nonempty have "s \<noteq> []" by blast
  with zh have "truthy (get_property (map_of ui_zh) key)" by (simp add: get_property_def)
  then have "\<exists>v. useTranslations lang key = Inr v \<and> truthy v"
    by (simp add: useTranslations_value)
  then show "useTranslations lang key \<noteq> Inr (Str [])" by auto
qed

text \<open>
  Claim C9 at a table whose English entry is the empty string, and at \<^verbatim>\<open>nav.home\<close> on
  the tables of the source.
\<close>

theorem t_falls_back_on_falsy_witness:
  "t (map_of [(''zh'', map_of [(''k'', ''zh text'')]), (''en'', map_of [(''k'', [])])]) En ''k''
     = Inr (Str ''zh text'') \<and>
   useTranslations En ''nav.home'' \<noteq> Inr (Str [])"
proof (intro conjI)
  let ?table = "map_of [(''zh'', map_of [(''k'', ''zh text'')]), (''en'', map_of [(''k'', [])])]"
  have "?table (lang_code En) = Some (map_of [(''k'', [])]) \<and>
      ?table defaultLang = Some (map_of [(''k'', ''zh text'')])"
    by (simp add: defaultLang_def)
  moreover have "map_of [(''k'', [])] ''k'' = Some ([] :: string)" by simp
  ultimately have "t ?table En ''k'' = Inr (get_property (map_of [(''k'', ''zh text'')]) ''k'')"
    using t_falls_back_on_falsy [where table = ?table and lang = En and key = "''k''"
        and of_lang = "map_of [(''k'', [])]" and of_default = "map_of [(''k'', ''zh text'')]"]
    by blast
  then show "t ?table En ''k'' = Inr (Str ''zh text'')"
    by (simp add: get_property_def)
next
  have "ui defaultLang = Some (map_of ui_zh) \<and> map_of ui_zh ''nav.home'' \<noteq> None"
    by (simp add: ui_def defaultLang_def ui_zh_def)
  with t_falls_back_on_falsy [where key = "''nav.home''" and lang = En]
  show "useTranslations En ''nav.home'' \<noteq> Inr (Str [])" by blast
qed

section \<open>Properties of content validation and loading\<close>

lemma parse_type_Inr: "parse_type ty v = Inr w \<Longrightarrow> w = v"
  by (induction ty arbitrary: v)
     (auto split: option.splits fm_value.splits if_splits)

lemma parse_object_issue_iff:
  "ZodIssue k c \<in> set (fst (parse_object shape input)) \<longleftrightarrow>
     (\<exists>ty. (k, ty) \<in> set shape \<and> parse_type ty (input k) = Inl c)"
  by (induction shape) (auto split: prod.splits sum.splits option.splits)

lemma parse_object_no_issue_iff:
  "fst (parse_object shape input) = [] \<longleftrightarrow>
     (\<forall>(k, ty) \<in> set shape. \<exists>w. parse_type ty (input k) = Inr w)"
  by (induction shape) (auto split: prod.splits sum.splits option.splits)

lemma parse_object_output_keys:
  "map_of (snd (parse_object shape input)) k \<noteq> None \<Longrightarrow> k \<in> fst ` set shape"
  by (induction shape) (auto split: prod.splits sum.splits option.splits if_splits)

lemma parse_object_output_distinct:
  "distinct (map fst shape) \<Longrightarrow> distinct (map fst (snd (parse_object shape input)))"
proof (induction shape)
  case Nil
  then show ?case by simp
next
  case (Cons entry shape)
  obtain key ty where entry: "entry = (key, ty)" by (cases entry)
  from Cons.prems entry have fresh: "key \<notin> fst ` set shape" by simp
  have "key \<notin> fst ` set (snd (parse_object shape input))"
  proof
    assume "key \<in> fst ` set (snd (parse_object shape input))"
    then have "map_of (snd (parse_object shape input)) key \<noteq> None"
      by (simp add: map_of_eq_None_iff)
    then show False using fresh parse_object_output_keys by blast
  qed
  with Cons entry show ?case
    by (auto split: prod.splits sum.splits option.splits)
qed

lemma parse_object_output_value:
  assumes "distinct (map fst shape)" "(k, ty) \<in> set shape"
    and "fst (parse_object shape input) = []"
  shows "map_of (snd (parse_object shape input)) k = input k"
  using assms
proof (induction shape)
  case Nil
  then show ?case by simp
next
  case (Cons entry shape)
  obtain key ty' where entry: "entry = (key, ty')" by (cases entry)
  from Cons.prems(3) entry obtain w where w: "parse_type ty' (input key) = Inr w"
    and rest: "fst (parse_object shape input) = []"
    by (auto split: prod.splits sum.splits option.splits)
  from w have w_eq: "w = input key" by (rule parse_type_Inr)
  show ?case
  proof (cases "k = key")
    case True
    from Cons.prems(1) entry have "key \<notin> fst ` set shape" by simp
    then have "map_of (snd (parse_object shape input)) key = None"
      using parse_object_output_keys by blast
    with True entry w w_eq show ?thesis
      by (auto split: prod.splits option.splits)
  next
    case False
    with Cons.prems(2) entry have "(k, ty) \<in> set shape" by auto
    with Cons.IH Cons.prems(1) rest
    have "map_of (snd (parse_object shape input)) k = input k" by simp
    with False entry w show ?thesis
      by (auto split: prod.splits option.splits)
  qed
qed

lemma safeParse_Inr_iff:
  "safeParse shape input = Inr out \<longleftrightarrow>
     fst (parse_object shape input) = [] \<and> out = snd (parse_object shape input)"
  by (auto simp: safeParse_def split: prod.splits list.splits)

lemma safeParse_Inl_iff:
  "safeParse shape input = Inl errs \<longleftrightarrow>
     errs \<noteq> [] \<and> errs = fst (parse_object shape input)"
  by (auto simp: safeParse_def split: prod.splits list.splits)

lemma safeParse_accepts_iff:
  "(\<exists>out. safeParse shape input = Inr out) \<longleftrightarrow>
     (\<forall>(k, ty) \<in> set shape. \<exists>w. parse_type ty (input k) = Inr w)"
  by (simp add: safeParse_Inr_iff parse_object_no_issue_iff)

lemma safeParse_rejects:
  assumes "(k, ty) \<in> set shape" "parse_type ty (input k) = Inl c"
  shows "\<exists>errs. safeParse shape input = Inl errs \<and> ZodIssue k c \<in> set errs"
proof -
  from assms have "ZodIssue k c \<in> set (fst (parse_object shape input))"
    by (auto simp: parse_object_issue_iff)
  then show ?thesis
    by (auto simp: safeParse_Inl_iff)
qed

lemma repository_schemas:
  assumes "c \<in> {news, docs, newsCollection}"
  shows "distinct (map fst (schema c))"
    and "(''title'', ZString) \<in> set (schema c)"
    and "(''description'', ZString) \<in> set (schema c)"
    and "(''pubDate'', ZDate) \<in> set (schema c)"
    and "\<exists>ty. (''lang'', ty) \<in> set (schema c)"
  using assms by (auto simp: news_def docs_def newsCollection_def)

lemma load_from_fst_Cons:
  "fst (load_from shape i (raw # raws)) =
     (case validate_document shape raw of
        Inr r \<Rightarrow> r # fst (load_from shape (Suc i) raws)
      | Inl errs \<Rightarrow> fst (load_from shape (Suc i) raws))"
  by (simp split: prod.splits sum.splits)

lemma load_from_snd_Cons:
  "snd (load_from shape i (raw # raws)) =
     (case validate_document shape raw of
        Inr r \<Rightarrow> snd (load_from shape (Suc i) raws)
      | Inl errs \<Rightarrow> \<lparr>document = i, issues = errs\<rparr> # snd (load_from shape (Suc i) raws))"
  by (simp split: prod.splits sum.splits)

lemma load_from_records:
  "fst (load_from shape i raws) =
     List.map_filter
       (\<lambda>raw. case validate_document shape raw of Inr r \<Rightarrow> Some r | Inl _ \<Rightarrow> None) raws"
proof (induction raws arbitrary: i)
  case Nil
  then show ?case by simp
next
  case (Cons raw raws)
  then show ?case
    by (simp add: load_from_fst_Cons del: load_from.simps split: sum.splits)
qed




lemma load_from_all_valid:
  assumes "\<forall>raw \<in> set raws. \<exists>r. validate_document shape raw = Inr r"
  shows "snd (load_from shape i raws) = [] \<and>
         map Inr (fst (load_from shape i raws)) = map (validate_document shape) raws"
  using assms
proof (induction raws arbitrary: i)
  case Nil
  then show ?case by simp
next
  case (Cons raw raws)
  from Cons.prems obtain r where "validate_document shape raw = Inr r" by auto
  moreover from Cons.prems Cons.IH [of "Suc i"]
  have "snd (load_from shape (Suc i) raws) = [] \<and>
         map Inr (fst (load_from shape (Suc i) raws)) = map (validate_document shape) raws"
    by simp
  ultimately show ?case
    by (simp add: load_from_fst_Cons load_from_snd_Cons del: load_from.simps)
qed



lemma validate_document_Inr_iff:
  "validate_document shape raw = Inr r \<longleftrightarrow>
     safeParse shape (frontmatter raw) = Inr (data r) \<and> body r = raw_body raw"
  by (cases r) (auto simp: validate_document_def split: sum.splits)


text \<open>
  Claim C4, as the specification words it, fails on each of the two schemas of the
  repository. Under \<^const>\<open>news\<close> a well-formed document whose \<^verbatim>\<open>lang\<close> is \<^verbatim>\<open>fr\<close> is
  accepted, since the field is any optional string. Under \<^const>\<open>newsCollection\<close> a
  well-formed document without \<^verbatim>\<open>lang\<close> is rejected, since the field is a required
  enumeration.
\<close>

theorem schema_lang_counterexample:
  "safeParse (schema news) (project_launch_en(''lang'' \<mapsto> VString ''fr'')) =
     Inr [(''title'', VString ''UOS Project Officially Launched''),
          (''description'', VString (''The Human-Cyber-Physical Convergence Operating System '' @
             ''project for power information scenarios has been officially launched, with '' @
             ''Nanjing University and industry partners working together to advance the project.'')),
          (''pubDate'', VDate (Some 1705276800000)),
          (''lang'', VString ''fr'')] \<and>
   safeParse (schema newsCollection) (project_launch_en(''lang'' := None)) =
     Inl [ZodIssue ''lang'' invalid_type]"
  by (simp add: safeParse_def news_def newsCollection_def project_launch_en_def)

text \<open>
  Claim C4, amended. Under the schemas \<^const>\<open>news\<close> and \<^const>\<open>docs\<close>, a document with
  well-typed \<^verbatim>\<open>title\<close>, \<^verbatim>\<open>description\<close> and \<^verbatim>\<open>pubDate\<close> is accepted when
  \<^verbatim>\<open>lang\<close> is omitted and when \<^verbatim>\<open>lang\<close> is any string, inside or outside the supported
  set; it is rejected, with an issue naming \<^verbatim>\<open>lang\<close>, when \<^verbatim>\<open>lang\<close> is present and not
  a string. Under the schema \<^const>\<open>newsCollection\<close>, a document whose \<^verbatim>\<open>lang\<close> is a
  string other than \<^verbatim>\<open>zh\<close> and \<^verbatim>\<open>en\<close> is rejected with an issue naming
  \<^verbatim>\<open>lang\<close>, and so is a document that omits \<^verbatim>\<open>lang\<close>.
\<close>

theorem schema_lang_rule:
  "(c \<in> {news, docs} \<and> input ''title'' = Some (VString a) \<and>
    input ''description'' = Some (VString b) \<and> input ''pubDate'' = Some (VDate (Some ms)) \<longrightarrow>
      (input ''lang'' = None \<longrightarrow> (\<exists>out. safeParse (schema c) input = Inr out)) \<and>
      (\<forall>s. input ''lang'' = Some (VString s) \<longrightarrow> (\<exists>out. safeParse (schema c) input = Inr out)) \<and>
      (\<forall>v. input ''lang'' = Some v \<and> (\<forall>s. v \<noteq> VString s) \<longrightarrow>
         (\<exists>errs. safeParse (schema c) input = Inl errs \<and>
                 ZodIssue ''lang'' invalid_type \<in> set errs))) \<and>
   (\<forall>s. input ''lang'' = Some (VString s) \<and> s \<noteq> ''zh'' \<and> s \<noteq> ''en'' \<longrightarrow>
      (\<exists>errs. safeParse (schema newsCollection) input = Inl errs \<and>
              ZodIssue ''lang'' invalid_enum_value \<in> set errs)) \<and>
   (input ''lang'' = None \<longrightarrow>
      (\<exists>errs. safeParse (schema newsCollection) input = Inl errs \<and>
              ZodIssue ''lang'' invalid_type \<in> set errs))"
proof (intro conjI allI impI)
  assume wf: "c \<in> {news, docs} \<and> input ''title'' = Some (VString a) \<and>
    input ''description'' = Some (VString b) \<and> input ''pubDate'' = Some (VDate (Some ms))"
  then have shape: "schema c = [(''title'', ZString), (''description'', ZString),
      (''pubDate'', ZDate), (''lang'', ZOptional ZString)]"
    by (auto simp: news_def docs_def)
  { assume "input ''lang'' = None"
    with wf show "\<exists>out. safeParse (schema c) input = Inr out"
      by (simp add: safeParse_accepts_iff shape) }
  { fix s
    assume "input ''lang'' = Some (VString s)"
    with wf show "\<exists>out. safeParse (schema c) input = Inr out"
      by (simp add: safeParse_accepts_iff shape) }
  { fix v
    assume "input ''lang'' = Some v \<and> (\<forall>s. v \<noteq> VString s)"
    then have "parse_type (ZOptional ZString) (input ''lang'') = Inl invalid_type"
      by (auto split: fm_value.splits)
    moreover have "(''lang'', ZOptional ZString) \<in> set (schema c)"
      by (simp add: shape)
    ultimately show "\<exists>errs. safeParse (schema c) input = Inl errs \<and>
                 ZodIssue ''lang'' invalid_type \<in> set errs"
      by (rule safeParse_rejects [rotated]) }
next
  fix s
  assume "input ''lang'' = Some (VString s) \<and> s \<noteq> ''zh'' \<and> s \<noteq> ''en''"
  then have "parse_type (ZEnum [''zh'', ''en'']) (input ''lang'') = Inl invalid_enum_value"
    by simp
  moreover have "(''lang'', ZEnum [''zh'', ''en'']) \<in> set (schema newsCollection)"
    by (simp add: newsCollection_def)
  ultimately show "\<exists>errs. safeParse (schema newsCollection) input = Inl errs \<and>
              ZodIssue ''lang'' invalid_enum_value \<in> set errs"
    by (rule safeParse_rejects [rotated])
next
  assume "input ''lang'' = None"
  then have "parse_type (ZEnum [''zh'', ''en'']) (input ''lang'') = Inl invalid_type"
    by simp
  moreover have "(''lang'', ZEnum [''zh'', ''en'']) \<in> set (schema newsCollection)"
    by (simp add: newsCollection_def)
  ultimately show "\<exists>errs. safeParse (schema newsCollection) input = Inl errs \<and>
              ZodIssue ''lang'' invalid_type \<in> set errs"
    by (rule safeParse_rejects [rotated])
qed

text \<open>
  The amended claim C4 at the front-matter of the launch article, with \<^verbatim>\<open>lang\<close>
  omitted, set to \<^verbatim>\<open>fr\<close> and set to a number.
\<close>

theorem schema_lang_rule_witness:
  "(\<exists>out. safeParse (schema news) (project_launch_en(''lang'' := None)) = Inr out) \<and>
   (\<exists>out. safeParse (schema docs) (project_launch_en(''lang'' \<mapsto> VString ''fr'')) = Inr out) \<and>
   (\<exists>errs. safeParse (schema news) (project_launch_en(''lang'' \<mapsto> VNumber 1)) = Inl errs \<and>
           ZodIssue ''lang'' invalid_type \<in> set errs) \<and>
   (\<exists>errs. safeParse (schema newsCollection) (project_launch_en(''lang'' \<mapsto> VString ''fr''))
             = Inl errs \<and> ZodIssue ''lang'' invalid_enum_value \<in> set errs)"
proof (intro conjI)
  let ?a = "''UOS Project Officially Launched''"
  let ?b = "''The Human-Cyber-Physical Convergence Operating System '' @
         ''project for power information scenarios has been officially launched, with '' @
         ''Nanjing University and industry partners working together to advance the project.''"
  show "\<exists>out. safeParse (schema news) (project_launch_en(''lang'' := None)) = Inr out"
    using schema_lang_rule [where c = news and input = "project_launch_en(''lang'' := None)"
        and a = ?a and b = ?b and ms = 1705276800000]
    by (simp add: project_launch_en_def)
  show "\<exists>out. safeParse (schema docs) (project_launch_en(''lang'' \<mapsto> VString ''fr'')) = Inr out"
    using schema_lang_rule [where c = docs
        and input = "project_launch_en(''lang'' \<mapsto> VString ''fr'')"
        and a = ?a and b = ?b and ms = 1705276800000]
    by (simp add: project_launch_en_def)
  show "\<exists>errs. safeParse (schema news) (project_launch_en(''lang'' \<mapsto> VNumber 1)) = Inl errs \<and>
           ZodIssue ''lang'' invalid_type \<in> set errs"
    using schema_lang_rule [where c = news
        and input = "project_launch_en(''lang'' \<mapsto> VNumber 1)"
        and a = ?a and b = ?b and ms = 1705276800000]
    by (simp add: project_launch_en_def)
  show "\<exists>errs. safeParse (schema newsCollection) (project_launch_en(''lang'' \<mapsto> VString ''fr''))
             = Inl errs \<and> ZodIssue ''lang'' invalid_enum_value \<in> set errs"
    using schema_lang_rule [where input = "project_launch_en(''lang'' \<mapsto> VString ''fr'')"]
    by simp
qed

text \<open>
  Claim C7: when one of the schemas of the repository accepts a front-matter, each of
  \<^verbatim>\<open>title\<close>, \<^verbatim>\<open>description\<close>, \<^verbatim>\<open>pubDate\<close> and \<^verbatim>\<open>lang\<close> has in the validated
  data exactly the value it has in the front-matter (and is absent where the front-matter
  omits it); the validated data has no key outside the schema and no key twice.
\<close>

theorem validated_fields_unchanged:
  "c \<in> {news, docs, newsCollection} \<and> safeParse (schema c) input = Inr out \<longrightarrow>
     map_of out ''title'' = input ''title'' \<and>
     map_of out ''description'' = input ''description'' \<and>
     map_of out ''pubDate'' = input ''pubDate'' \<and>
     map_of out ''lang'' = input ''lang'' \<and>
     (\<forall>k. map_of out k \<noteq> None \<longrightarrow> k \<in> fst ` set (schema c)) \<and>
     distinct (map fst out)"
proof
  assume a: "c \<in> {news, docs, newsCollection} \<and> safeParse (schema c) input = Inr out"
  then have c: "c \<in> {news, docs, newsCollection}"
    and ok: "fst (parse_object (schema c) input) = []"
    and out: "out = snd (parse_object (schema c) input)"
    by (simp_all add: safeParse_Inr_iff)
  note s = repository_schemas [OF c]
  obtain ty where lang: "(''lang'', ty) \<in> set (schema c)" using s(5) by blast
  have "map_of out ''title'' = input ''title''"
    unfolding out by (rule parse_object_output_value [OF s(1) s(2) ok])
  moreover have "map_of out ''description'' = input ''description''"
    unfolding out by (rule parse_object_output_value [OF s(1) s(3) ok])
  moreover have "map_of out ''pubDate'' = input ''pubDate''"
    unfolding out by (rule parse_object_output_value [OF s(1) s(4) ok])
  moreover have "map_of out ''lang'' = input ''lang''"
    unfolding out by (rule parse_object_output_value [OF s(1) lang ok])
  moreover have "\<forall>k. map_of out k \<noteq> None \<longrightarrow> k \<in> fst ` set (schema c)"
    unfolding out using parse_object_output_keys by blast
  moreover have "distinct (map fst out)"
    unfolding out by (rule parse_object_output_distinct [OF s(1)])
  ultimately show "map_of out ''title'' = input ''title'' \<and>
     map_of out ''description'' = input ''description'' \<and>
     map_of out ''pubDate'' = input ''pubDate'' \<and>
     map_of out ''lang'' = input ''lang'' \<and>
     (\<forall>k. map_of out k \<noteq> None \<longrightarrow> k \<in> fst ` set (schema c)) \<and>
     distinct (map fst out)"
    by blast
qed

text \<open>
  Claim C7 at the front-matter of the launch article.
\<close>

theorem validated_fields_unchanged_witness:
  "map_of (projr (safeParse (schema news) project_launch_en)) ''title''
     = Some (VString ''UOS Project Officially Launched'') \<and>
   map_of (projr (safeParse (schema news) project_launch_en)) ''pubDate''
     = Some (VDate (Some 1705276800000)) \<and>
   map_of (projr (safeParse (schema news) project_launch_en)) ''lang''
     = Some (VString ''en'')"
proof -
  have "\<exists>out. safeParse (schema news) project_launch_en = Inr out"
    by (simp add: safeParse_accepts_iff news_def project_launch_en_def)
  then have "safeParse (schema news) project_launch_en =
      Inr (projr (safeParse (schema news) project_launch_en))"
    by auto
  with validated_fields_unchanged [where c = news and input = project_launch_en
      and out = "projr (safeParse (schema news) project_launch_en)"]
  have "map_of (projr (safeParse (schema news) project_launch_en)) ''title''
          = project_launch_en ''title'' \<and>
        map_of (projr (safeParse (schema news) project_launch_en)) ''pubDate''
          = project_launch_en ''pubDate'' \<and>
        map_of (projr (safeParse (schema news) project_launch_en)) ''lang''
          = project_launch_en ''lang''"
    by simp
  then show ?thesis
    by (simp add: project_launch_en_def)
qed





text \<open>
  Claim C6: the records are those of the accepted documents in the order of the batch.
  When every document of the batch validates, there is no error, there are as many records
  as documents, and the record at each position is the validated data and the body of the
  document at that position; no reordering by date or otherwise takes place. The result is
  a function of the schema and the batch alone, so loading the same batch twice gives the
  same sequence.
\<close>

theorem loadCollection_keeps_order:
  "loadCollection collectionName shape raws = (records, errors) \<longrightarrow>
     records = List.map_filter
       (\<lambda>raw. case validate_document shape raw of Inr r \<Rightarrow> Some r | Inl _ \<Rightarrow> None) raws \<and>
     (\<forall>records' errors'. loadCollection collectionName shape raws = (records', errors') \<longrightarrow>
        records' = records \<and> errors' = errors) \<and>
     ((\<forall>raw \<in> set raws. \<exists>r. validate_document shape raw = Inr r) \<longrightarrow>
        errors = [] \<and> length records = length raws \<and>
        (\<forall>i < length raws.
           safeParse shape (frontmatter (raws ! i)) = Inr (data (records ! i)) \<and>
           body (records ! i) = raw_body (raws ! i)))"
proof (intro impI conjI)
  assume a: "loadCollection collectionName shape raws = (records, errors)"
  then have records: "records = fst (load_from shape 0 raws)"
    and errors: "errors = snd (load_from shape 0 raws)"
    by (simp_all add: loadCollection_def)
  show "records = List.map_filter
       (\<lambda>raw. case validate_document shape raw of Inr r \<Rightarrow> Some r | Inl _ \<Rightarrow> None) raws"
    unfolding records by (rule load_from_records)
  show "\<forall>records' errors'. loadCollection collectionName shape raws = (records', errors') \<longrightarrow>
        records' = records \<and> errors' = errors"
    using a by simp
  assume valid: "\<forall>raw \<in> set raws. \<exists>r. validate_document shape raw = Inr r"
  from load_from_all_valid [OF this, of 0]
  have no_errors: "errors = []"
    and same: "map Inr records = map (validate_document shape) raws"
    by (simp_all add: records errors)
  show "errors = []" by (rule no_errors)
  from same have "length (map Inr records :: (zod_issue list + document_record) list)
      = length (map (validate_document shape) raws)"
    by simp
  then show len: "length records = length raws" by simp
  show "\<forall>i < length raws.
           safeParse shape (frontmatter (raws ! i)) = Inr (data (records ! i)) \<and>
           body (records ! i) = raw_body (raws ! i)"
  proof (intro allI impI)
    fix i
    assume i: "i < length raws"
    with len have "map Inr records ! i = (Inr (records ! i) :: zod_issue list + document_record)"
      by simp
    moreover from i have "map (validate_document shape) raws ! i
        = validate_document shape (raws ! i)"
      by simp
    ultimately have "validate_document shape (raws ! i) = Inr (records ! i)"
      using same by simp
    then show "safeParse shape (frontmatter (raws ! i)) = Inr (data (records ! i)) \<and>
           body (records ! i) = raw_body (raws ! i)"
      by (simp add: validate_document_Inr_iff)
  qed
qed

text \<open>
  Claim C6 at a batch whose dates are descending: the records come out in that order.
\<close>

theorem loadCollection_keeps_order_witness:
  "map (\<lambda>r. map_of (data r) ''pubDate'')
     (fst (loadCollection ''news'' (schema news)
        [\<lparr>frontmatter = tech_workshop_en, raw_body = ''later''\<rparr>,
         \<lparr>frontmatter = project_launch_en, raw_body = ''earlier''\<rparr>]))
     = [Some (VDate (Some 1736467200000)), Some (VDate (Some 1705276800000))] \<and>
   map body
     (fst (loadCollection ''news'' (schema news)
        [\<lparr>frontmatter = tech_workshop_en, raw_body = ''later''\<rparr>,
         \<lparr>frontmatter = project_launch_en, raw_body = ''earlier''\<rparr>]))
     = [''later'', ''earlier'']"
proof -
  let ?raws = "[\<lparr>frontmatter = tech_workshop_en, raw_body = ''later''\<rparr>,
         \<lparr>frontmatter = project_launch_en, raw_body = ''earlier''\<rparr>]"
  let ?result = "loadCollection ''news'' (schema news) ?raws"
  have "?result = (fst ?result, snd ?result)" by simp
  from loadCollection_keeps_order [where collectionName = "''news''" and shape = "schema news"
      and raws = ?raws and records = "fst ?result" and errors = "snd ?result", rule_format, OF this]
  have kept: "fst ?result = List.map_filter
       (\<lambda>raw. case validate_document (schema news) raw of Inr r \<Rightarrow> Some r | Inl _ \<Rightarrow> None) ?raws"
    by blast
  show ?thesis
    unfolding kept
    by (simp add: validate_document_def safeParse_def news_def project_launch_en_def
          tech_workshop_en_def)
qed

end
